theory Spec2Isabelle
  imports Main "HOL-Library.Word"
begin

section \<open>Machine types of \<^verbatim>\<open>src/Patch/Types.h\<close>\<close>

text \<open>
  \<^verbatim>\<open>unsigned int\<close> is 32 bits wide on every target of the engine, \<^verbatim>\<open>uint16_t\<close> and
  \<^verbatim>\<open>int64_t\<close> have their fixed widths. \<^verbatim>\<open>rword\<close> is declared in \<^verbatim>\<open>QBDI/State.h\<close>,
  a header that is not modelled here: it is the unsigned machine word of the target
  (32 bits on ARM and X86, 64 bits on AARCH64 and X86_64). It is kept as a type
  parameter: \<open>'a word\<close> is \<^verbatim>\<open>rword\<close>, and \<^verbatim>\<open>size_t\<close> has the same width.
\<close>

type_synonym unsigned_int = "32 word"
type_synonym uint16_t = "16 word"
type_synonym int64_t = "64 word"

text \<open>\<^verbatim>\<open>sizeof(rword)\<close>, in bytes of 8 bits.\<close>

definition sizeof_rword :: "'a::len itself \<Rightarrow> nat" where
  "sizeof_rword t = LENGTH('a) div 8"

section \<open>\<^verbatim>\<open>struct RegLLVM\<close>\<close>

datatype RegLLVM = RegLLVM (RegLLVM_id: unsigned_int)

text \<open>\<^verbatim>\<open>RegLLVM(unsigned int id = 0)\<close>: the constructor called with no argument.\<close>

definition RegLLVM_default :: RegLLVM where
  "RegLLVM_default = RegLLVM 0"

definition RegLLVM_getValue :: "RegLLVM \<Rightarrow> unsigned_int" where
  "RegLLVM_getValue r = RegLLVM_id r"

text \<open>\<^verbatim>\<open>RegLLVM::operator==\<close>, \<^verbatim>\<open>operator!=\<close> and \<^verbatim>\<open>operator<\<close>.\<close>

definition RegLLVM_eq :: "RegLLVM \<Rightarrow> RegLLVM \<Rightarrow> bool" where
  "RegLLVM_eq r o' = (RegLLVM_id r = RegLLVM_id o')"

definition RegLLVM_neq :: "RegLLVM \<Rightarrow> RegLLVM \<Rightarrow> bool" where
  "RegLLVM_neq r o' = (RegLLVM_id r \<noteq> RegLLVM_id o')"

definition RegLLVM_less :: "RegLLVM \<Rightarrow> RegLLVM \<Rightarrow> bool" where
  "RegLLVM_less r o' = (RegLLVM_id r < RegLLVM_id o')"

text \<open>
  The free operators \<^verbatim>\<open>operator==(unsigned int id, const RegLLVM &reg)\<close> and
  \<^verbatim>\<open>operator!=\<close>: \<^verbatim>\<open>reg == id\<close> builds \<^verbatim>\<open>RegLLVM(id)\<close> by the converting constructor.
\<close>

definition unsigned_eq_RegLLVM :: "unsigned_int \<Rightarrow> RegLLVM \<Rightarrow> bool" where
  "unsigned_eq_RegLLVM n reg = RegLLVM_eq reg (RegLLVM n)"

definition unsigned_neq_RegLLVM :: "unsigned_int \<Rightarrow> RegLLVM \<Rightarrow> bool" where
  "unsigned_neq_RegLLVM n reg = RegLLVM_neq reg (RegLLVM n)"

section \<open>\<^verbatim>\<open>struct Reg\<close>\<close>

text \<open>
  The table \<^verbatim>\<open>GPR_ID\<close> is declared in \<^verbatim>\<open>Patch/Register.h\<close> and
  \<^verbatim>\<open>offsetof(Context, gprState)\<close> comes from \<^verbatim>\<open>ExecBlock/Context.h\<close>; neither header
  is modelled here, so both are parameters of the functions that read them. \<^verbatim>\<open>GPR_ID[id]\<close>
  on an index past the end of the table is undefined behaviour in C++: the model
  returns \<open>None\<close> there.
\<close>

datatype Reg = Reg (Reg_id: unsigned_int)

definition Reg_getID :: "Reg \<Rightarrow> unsigned_int" where
  "Reg_getID r = Reg_id r"

text \<open>The ids that index the table.\<close>

definition Reg_valid :: "RegLLVM list \<Rightarrow> Reg \<Rightarrow> bool" where
  "Reg_valid GPR_ID r = (unat (Reg_id r) < length GPR_ID)"

text \<open>\<^verbatim>\<open>operator RegLLVM() const { return GPR_ID[id]; }\<close>\<close>

definition Reg_to_RegLLVM :: "RegLLVM list \<Rightarrow> Reg \<Rightarrow> RegLLVM option" where
  "Reg_to_RegLLVM GPR_ID r =
     (if unat (Reg_id r) < length GPR_ID then Some (GPR_ID ! unat (Reg_id r)) else None)"

text \<open>\<^verbatim>\<open>getValue() const { return GPR_ID[id].getValue(); }\<close>\<close>

definition Reg_getValue :: "RegLLVM list \<Rightarrow> Reg \<Rightarrow> unsigned_int option" where
  "Reg_getValue GPR_ID r =
     (if unat (Reg_id r) < length GPR_ID
      then Some (RegLLVM_getValue (GPR_ID ! unat (Reg_id r))) else None)"

text \<open>
  \<^verbatim>\<open>offset() const { return offsetof(Context, gprState) + sizeof(rword) * id; }\<close>:
  \<^verbatim>\<open>id\<close> is converted to \<^verbatim>\<open>size_t\<close>, and the sum wraps at the width of the word.
\<close>

definition Reg_offset :: "'a::len word \<Rightarrow> Reg \<Rightarrow> 'a word" where
  "Reg_offset offsetof_Context_gprState r =
     offsetof_Context_gprState + of_nat (sizeof_rword TYPE('a)) * ucast (Reg_id r)"

text \<open>
  \<^verbatim>\<open>Reg::operator==(const RegLLVM &o) const { return o == *this; }\<close> and
  \<^verbatim>\<open>operator!=\<close>: \<^verbatim>\<open>*this\<close> goes through the conversion to \<^verbatim>\<open>RegLLVM\<close> and the
  comparison is \<^verbatim>\<open>RegLLVM\<close>'s.
\<close>

definition Reg_eq_RegLLVM :: "RegLLVM list \<Rightarrow> Reg \<Rightarrow> RegLLVM \<Rightarrow> bool option" where
  "Reg_eq_RegLLVM GPR_ID r o' =
     (case Reg_to_RegLLVM GPR_ID r of
        None \<Rightarrow> None
      | Some this \<Rightarrow> Some (RegLLVM_eq o' this))"

definition Reg_neq_RegLLVM :: "RegLLVM list \<Rightarrow> Reg \<Rightarrow> RegLLVM \<Rightarrow> bool option" where
  "Reg_neq_RegLLVM GPR_ID r o' =
     (case Reg_to_RegLLVM GPR_ID r of
        None \<Rightarrow> None
      | Some this \<Rightarrow> Some (RegLLVM_neq o' this))"

text \<open>
  The expressions \<^verbatim>\<open>a == r\<close> and \<^verbatim>\<open>a != r\<close> with \<^verbatim>\<open>a\<close> a \<^verbatim>\<open>RegLLVM\<close> and \<^verbatim>\<open>r\<close> a
  \<^verbatim>\<open>Reg\<close>: \<^verbatim>\<open>RegLLVM::operator==\<close> applied to the converted \<^verbatim>\<open>r\<close>. Overloads are
  resolved among the declared operators, as in C++17 (no reversed candidates).
\<close>

definition RegLLVM_eq_Reg :: "RegLLVM list \<Rightarrow> RegLLVM \<Rightarrow> Reg \<Rightarrow> bool option" where
  "RegLLVM_eq_Reg GPR_ID a r =
     (case Reg_to_RegLLVM GPR_ID r of
        None \<Rightarrow> None
      | Some o' \<Rightarrow> Some (RegLLVM_eq a o'))"

definition RegLLVM_neq_Reg :: "RegLLVM list \<Rightarrow> RegLLVM \<Rightarrow> Reg \<Rightarrow> bool option" where
  "RegLLVM_neq_Reg GPR_ID a r =
     (case Reg_to_RegLLVM GPR_ID r of
        None \<Rightarrow> None
      | Some o' \<Rightarrow> Some (RegLLVM_neq a o'))"

text \<open>
  The expression \<^verbatim>\<open>r == s\<close> with both sides a \<^verbatim>\<open>Reg\<close>: the only viable operator is
  \<^verbatim>\<open>Reg::operator==(const RegLLVM &)\<close>, with \<^verbatim>\<open>s\<close> converted to \<^verbatim>\<open>RegLLVM\<close>.
\<close>

definition Reg_eq_Reg :: "RegLLVM list \<Rightarrow> Reg \<Rightarrow> Reg \<Rightarrow> bool option" where
  "Reg_eq_Reg GPR_ID r s =
     (case Reg_to_RegLLVM GPR_ID s of
        None \<Rightarrow> None
      | Some o' \<Rightarrow> Reg_eq_RegLLVM GPR_ID r o')"

text \<open>\<^verbatim>\<open>Reg::operator<(const Reg &o) const { return id < o.id; }\<close>\<close>

definition Reg_less :: "Reg \<Rightarrow> Reg \<Rightarrow> bool" where
  "Reg_less r o' = (Reg_id r < Reg_id o')"

section \<open>\<^verbatim>\<open>struct Shadow\<close> and \<^verbatim>\<open>enum ShadowReservedTag\<close>\<close>

datatype Shadow = Shadow (Shadow_tag: uint16_t)

text \<open>\<^verbatim>\<open>rword getTag() const { return tag; }\<close>: the integral conversion to \<^verbatim>\<open>rword\<close>.\<close>

definition Shadow_getTag :: "Shadow \<Rightarrow> 'a::len word" where
  "Shadow_getTag s = ucast (Shadow_tag s)"

datatype ShadowReservedTag = MEMORY_TAG_BEGIN | MEMORY_TAG_END | Untagged

fun ShadowReservedTag_value :: "ShadowReservedTag \<Rightarrow> uint16_t" where
  "ShadowReservedTag_value MEMORY_TAG_BEGIN = 0xffe0"
| "ShadowReservedTag_value MEMORY_TAG_END = 0xfff0"
| "ShadowReservedTag_value Untagged = 0xffff"

text \<open>The half-open range of the memory-access tags that the two enumerators delimit.\<close>

definition memory_tag :: "uint16_t \<Rightarrow> bool" where
  "memory_tag t =
     (ShadowReservedTag_value MEMORY_TAG_BEGIN \<le> t \<and> t < ShadowReservedTag_value MEMORY_TAG_END)"

text \<open>
  Modelled from the spec: the allocator of shadow tags is not in \<^verbatim>\<open>Types.h\<close>. The
  specification calls a tag free for instrumentation use when it is neither in the
  memory-access range nor the value \<^verbatim>\<open>Untagged\<close>.
\<close>

definition free_for_instrumentation :: "uint16_t \<Rightarrow> bool" where
  "free_for_instrumentation t = (\<not> memory_tag t \<and> t \<noteq> ShadowReservedTag_value Untagged)"

section \<open>\<^verbatim>\<open>Constant\<close>, \<^verbatim>\<open>Offset\<close>, \<^verbatim>\<open>Temp\<close> and \<^verbatim>\<open>Operand\<close>\<close>

text \<open>\<^verbatim>\<open>struct Constant { rword v; }\<close>: the parameter \<open>'w\<close> is \<^verbatim>\<open>rword\<close>.\<close>

datatype 'w Constant = Constant (Constant_v: 'w)

definition Constant_to_rword :: "'w Constant \<Rightarrow> 'w" where
  "Constant_to_rword c = Constant_v c"

datatype Offset = Offset (Offset_offset: int64_t)

text \<open>
  \<^verbatim>\<open>Offset(Reg reg) : offset(reg.offset())\<close>: the unsigned \<^verbatim>\<open>rword\<close> is converted to
  \<^verbatim>\<open>int64_t\<close>, which keeps the value where it is representable and keeps the low 64
  bits otherwise.
\<close>

definition Offset_of_Reg :: "'a::len word \<Rightarrow> Reg \<Rightarrow> Offset" where
  "Offset_of_Reg offsetof_Context_gprState reg =
     Offset (ucast (Reg_offset offsetof_Context_gprState reg))"

definition Offset_to_int64_t :: "Offset \<Rightarrow> int64_t" where
  "Offset_to_int64_t x = Offset_offset x"

datatype Temp = Temp (Temp_id: unsigned_int)

definition Temp_to_unsigned :: "Temp \<Rightarrow> unsigned_int" where
  "Temp_to_unsigned t = Temp_id t"

datatype Operand = Operand (Operand_idx: unsigned_int)

definition Operand_to_unsigned :: "Operand \<Rightarrow> unsigned_int" where
  "Operand_to_unsigned x = Operand_idx x"

section \<open>Auxiliary facts\<close>

lemma sizeof_rword_64: "sizeof_rword TYPE(64) = 8"
  by (simp add: sizeof_rword_def)

lemma sizeof_rword_32: "sizeof_rword TYPE(32) = 4"
  by (simp add: sizeof_rword_def)

lemma Reg_offset_of_nat:
  fixes base :: "'a::len word"
  shows "Reg_offset base r = of_nat (unat base + sizeof_rword TYPE('a) * unat (Reg_id r))"
  by (simp add: Reg_offset_def)

lemma Reg_offset_unat:
  fixes base :: "'a::len word"
  assumes "unat base + sizeof_rword TYPE('a) * unat (Reg_id r) < 2 ^ LENGTH('a)"
  shows "unat (Reg_offset base r) = unat base + sizeof_rword TYPE('a) * unat (Reg_id r)"
  using assms by (simp only: Reg_offset_of_nat unat_of_nat mod_less)

lemma Reg_valid_slot_fits:
  fixes base :: "'a::len word"
  assumes fits: "unat base + sizeof_rword TYPE('a) * length GPR_ID \<le> 2 ^ LENGTH('a)"
    and valid: "Reg_valid GPR_ID r"
  shows "unat base + sizeof_rword TYPE('a) * unat (Reg_id r) < 2 ^ LENGTH('a)"
proof (cases "sizeof_rword TYPE('a) = 0")
  case True
  have "unat base < 2 ^ LENGTH('a)"
    by (rule unsigned_less)
  with True show ?thesis by simp
next
  case False
  have "unat (Reg_id r) < length GPR_ID"
    using valid by (simp add: Reg_valid_def)
  then have "sizeof_rword TYPE('a) * unat (Reg_id r) < sizeof_rword TYPE('a) * length GPR_ID"
    using False by simp
  then show ?thesis using fits by linarith
qed

lemma Reg_offset_consecutive:
  fixes base :: "'a::len word"
  assumes "unat (Reg_id r') = unat (Reg_id r) + 1"
  shows "Reg_offset base r' - Reg_offset base r = of_nat (sizeof_rword TYPE('a))"
  using assms by (simp add: Reg_offset_of_nat algebra_simps)

lemma sint_ucast_int64_t:
  fixes w :: "'a::len word"
  assumes "uint w < 2 ^ 63"
  shows "sint (ucast w :: int64_t) = uint w"
proof -
  have "sint (ucast w :: int64_t) = signed_take_bit 63 (uint w)"
    by (simp add: signed_ucast_eq)
  also have "\<dots> = uint w"
  proof (rule signed_take_bit_int_eq_self)
    have "- (2 ^ 63) \<le> (0::int)" by simp
    also have "0 \<le> uint w" by simp
    finally show "- (2 ^ 63) \<le> uint w" .
    show "uint w < 2 ^ 63" by (rule assms)
  qed
  finally show ?thesis .
qed

lemma Reg_to_RegLLVM_valid:
  "Reg_valid GPR_ID r \<Longrightarrow> Reg_to_RegLLVM GPR_ID r = Some (GPR_ID ! unat (Reg_id r))"
  by (simp add: Reg_valid_def Reg_to_RegLLVM_def)

lemma Reg_to_RegLLVM_invalid:
  "\<not> Reg_valid GPR_ID r \<Longrightarrow> Reg_to_RegLLVM GPR_ID r = None"
  by (simp add: Reg_valid_def Reg_to_RegLLVM_def)

lemma Reg_eq_Reg_valid:
  assumes "Reg_valid GPR_ID r" "Reg_valid GPR_ID s"
  shows "Reg_eq_Reg GPR_ID r s =
     Some (RegLLVM_id (GPR_ID ! unat (Reg_id r)) = RegLLVM_id (GPR_ID ! unat (Reg_id s)))"
  using assms
  by (auto simp: Reg_eq_Reg_def Reg_eq_RegLLVM_def Reg_to_RegLLVM_valid RegLLVM_eq_def)

lemma Reg_less_equiv:
  "(\<not> Reg_less r s \<and> \<not> Reg_less s r) = (Reg_id r = Reg_id s)"
  by (auto simp: Reg_less_def)

section \<open>The register handles\<close>

text \<open>
  C1. Let the saved GPR block, one machine word for each entry of \<^verbatim>\<open>GPR_ID\<close>, lie inside
  the address space of the target. Then for every register with a valid id,
  \<^verbatim>\<open>offset()\<close> is the offset of the block plus the id times \<^verbatim>\<open>sizeof(rword)\<close>, as
  numbers and with no wrap-around; and for two valid registers with consecutive ids
  the offsets differ by exactly \<^verbatim>\<open>sizeof(rword)\<close>, as numbers and as machine words.
\<close>

theorem Reg_offset_layout:
  fixes base :: "'a::len word"
  assumes fits: "unat base + sizeof_rword TYPE('a) * length GPR_ID \<le> 2 ^ LENGTH('a)"
  shows "(Reg_valid GPR_ID r \<longrightarrow>
            unat (Reg_offset base r) = unat base + sizeof_rword TYPE('a) * unat (Reg_id r))
       \<and> (Reg_valid GPR_ID r \<and> Reg_valid GPR_ID r' \<and> unat (Reg_id r') = unat (Reg_id r) + 1 \<longrightarrow>
            unat (Reg_offset base r') = unat (Reg_offset base r) + sizeof_rword TYPE('a)
          \<and> Reg_offset base r' - Reg_offset base r = of_nat (sizeof_rword TYPE('a)))"
proof (intro conjI impI)
  assume "Reg_valid GPR_ID r"
  then show "unat (Reg_offset base r) = unat base + sizeof_rword TYPE('a) * unat (Reg_id r)"
    by (rule Reg_offset_unat [OF Reg_valid_slot_fits [OF fits]])
next
  assume h: "Reg_valid GPR_ID r \<and> Reg_valid GPR_ID r' \<and> unat (Reg_id r') = unat (Reg_id r) + 1"
  have a: "unat (Reg_offset base r) = unat base + sizeof_rword TYPE('a) * unat (Reg_id r)"
    using h by (intro Reg_offset_unat Reg_valid_slot_fits [OF fits]) simp
  have b: "unat (Reg_offset base r') = unat base + sizeof_rword TYPE('a) * unat (Reg_id r')"
    using h by (intro Reg_offset_unat Reg_valid_slot_fits [OF fits]) simp
  show "unat (Reg_offset base r') = unat (Reg_offset base r) + sizeof_rword TYPE('a)"
    using h by (simp add: a b)
next
  assume "Reg_valid GPR_ID r \<and> Reg_valid GPR_ID r' \<and> unat (Reg_id r') = unat (Reg_id r) + 1"
  then show "Reg_offset base r' - Reg_offset base r = of_nat (sizeof_rword TYPE('a))"
    by (intro Reg_offset_consecutive) simp
qed

theorem Reg_offset_layout_witness:
  "Reg_valid [RegLLVM 10, RegLLVM 11, RegLLVM 12] (Reg 1)
   \<and> Reg_valid [RegLLVM 10, RegLLVM 11, RegLLVM 12] (Reg 2)
   \<and> unat (Reg_offset (64 :: 64 word) (Reg 1)) = 72
   \<and> unat (Reg_offset (64 :: 64 word) (Reg 2)) = unat (Reg_offset (64 :: 64 word) (Reg 1)) + 8
   \<and> Reg_offset (64 :: 64 word) (Reg 2) - Reg_offset (64 :: 64 word) (Reg 1) = 8"
  using Reg_offset_layout [where 'a = 64, of 64 "[RegLLVM 10, RegLLVM 11, RegLLVM 12]" "Reg 1" "Reg 2"]
  by (simp add: Reg_valid_def sizeof_rword_def)

text \<open>
  C3. For a register \<^verbatim>\<open>r\<close> with a valid id and an architectural register \<^verbatim>\<open>a\<close>,
  \<^verbatim>\<open>r == a\<close> holds exactly when the table entry \<^verbatim>\<open>GPR_ID[r.id]\<close> has the raw id of
  \<^verbatim>\<open>a\<close>, and \<^verbatim>\<open>r != a\<close> exactly when it has not. In both orders the comparison gives
  the same result, for \<^verbatim>\<open>==\<close> and for \<^verbatim>\<open>!=\<close>, and it is the comparison of
  \<^verbatim>\<open>RegLLVM\<close> applied to the converted register.
\<close>

theorem Reg_RegLLVM_equality_symmetric:
  "(Reg_valid GPR_ID r \<longrightarrow>
      Reg_eq_RegLLVM GPR_ID r a = Some (RegLLVM_id (GPR_ID ! unat (Reg_id r)) = RegLLVM_id a)
    \<and> Reg_neq_RegLLVM GPR_ID r a = Some (RegLLVM_id (GPR_ID ! unat (Reg_id r)) \<noteq> RegLLVM_id a))
   \<and> Reg_eq_RegLLVM GPR_ID r a = RegLLVM_eq_Reg GPR_ID a r
   \<and> Reg_neq_RegLLVM GPR_ID r a = RegLLVM_neq_Reg GPR_ID a r
   \<and> Reg_neq_RegLLVM GPR_ID r a = map_option Not (Reg_eq_RegLLVM GPR_ID r a)
   \<and> Reg_eq_RegLLVM GPR_ID r a =
       map_option (\<lambda>t. RegLLVM_id t = RegLLVM_id a) (Reg_to_RegLLVM GPR_ID r)"
proof (cases "Reg_valid GPR_ID r")
  case True
  then show ?thesis
    by (auto simp: Reg_to_RegLLVM_valid Reg_eq_RegLLVM_def Reg_neq_RegLLVM_def
        RegLLVM_eq_Reg_def RegLLVM_neq_Reg_def RegLLVM_eq_def RegLLVM_neq_def)
next
  case False
  then show ?thesis
    by (simp add: Reg_to_RegLLVM_invalid Reg_eq_RegLLVM_def Reg_neq_RegLLVM_def
        RegLLVM_eq_Reg_def RegLLVM_neq_Reg_def)
qed

theorem Reg_RegLLVM_equality_symmetric_witness:
  "Reg_valid [RegLLVM 10, RegLLVM 11] (Reg 1)
   \<and> Reg_eq_RegLLVM [RegLLVM 10, RegLLVM 11] (Reg 1) (RegLLVM 11) = Some True
   \<and> RegLLVM_eq_Reg [RegLLVM 10, RegLLVM 11] (RegLLVM 11) (Reg 1) = Some True
   \<and> Reg_neq_RegLLVM [RegLLVM 10, RegLLVM 11] (Reg 1) (RegLLVM 11) = Some False
   \<and> RegLLVM_neq_Reg [RegLLVM 10, RegLLVM 11] (RegLLVM 11) (Reg 1) = Some False"
  using Reg_RegLLVM_equality_symmetric [of "[RegLLVM 10, RegLLVM 11]" "Reg 1" "RegLLVM 11"]
  by (auto simp: Reg_valid_def)

text \<open>
  C4. A register with a valid id \<^verbatim>\<open>i\<close> converts to the table entry \<^verbatim>\<open>GPR_ID[i]\<close> and to
  no other architectural register, and \<^verbatim>\<open>getValue()\<close> is the raw id of that entry, the
  field \<^verbatim>\<open>id\<close> of \<^verbatim>\<open>GPR_ID[i]\<close>. The conversion depends on the id only: registers with the
  same id convert alike.
\<close>

theorem Reg_conversion_is_table_entry:
  "(Reg_valid GPR_ID (Reg i) \<longrightarrow>
      Reg_to_RegLLVM GPR_ID (Reg i) = Some (GPR_ID ! unat i)
    \<and> (\<exists>!a. Reg_to_RegLLVM GPR_ID (Reg i) = Some a)
    \<and> Reg_getValue GPR_ID (Reg i) = Some (RegLLVM_id (GPR_ID ! unat i)))
   \<and> Reg_getValue GPR_ID r = map_option RegLLVM_id (Reg_to_RegLLVM GPR_ID r)
   \<and> RegLLVM_getValue a = RegLLVM_id a
   \<and> (Reg_getID r = Reg_getID s \<longrightarrow> Reg_to_RegLLVM GPR_ID r = Reg_to_RegLLVM GPR_ID s)"
  by (auto simp: Reg_valid_def Reg_to_RegLLVM_def Reg_getValue_def RegLLVM_getValue_def
      Reg_getID_def Reg.expand)

theorem Reg_conversion_is_table_entry_witness:
  "Reg_valid [RegLLVM 10, RegLLVM 11] (Reg 1)
   \<and> Reg_getID (Reg 1) = Reg_getID (Reg 1)
   \<and> Reg_to_RegLLVM [RegLLVM 10, RegLLVM 11] (Reg 1) = Some (RegLLVM 11)
   \<and> Reg_getValue [RegLLVM 10, RegLLVM 11] (Reg 1) = Some 11"
  using Reg_conversion_is_table_entry
    [of "[RegLLVM 10, RegLLVM 11]" 1 "Reg 1" "RegLLVM 11" "Reg 1"]
  by (simp add: Reg_valid_def)

text \<open>
  C9. On architectural registers \<^verbatim>\<open>==\<close> compares the raw ids (so it is equality of the
  handles), \<^verbatim>\<open>!=\<close> is its negation and \<^verbatim>\<open><\<close> is the order of the raw ids: irreflexive,
  asymmetric, transitive and total, with \<^verbatim>\<open>==\<close> as the equivalence of incomparable
  keys, as an ordered map or set needs.
\<close>

theorem RegLLVM_order_by_id:
  "RegLLVM_eq a b = (RegLLVM_id a = RegLLVM_id b)
   \<and> RegLLVM_eq a b = (a = b)
   \<and> RegLLVM_neq a b = (\<not> RegLLVM_eq a b)
   \<and> RegLLVM_less a b = (RegLLVM_id a < RegLLVM_id b)
   \<and> \<not> RegLLVM_less a a
   \<and> (RegLLVM_less a b \<longrightarrow> \<not> RegLLVM_less b a)
   \<and> (RegLLVM_less a b \<and> RegLLVM_less b c \<longrightarrow> RegLLVM_less a c)
   \<and> (RegLLVM_less a b \<or> RegLLVM_eq a b \<or> RegLLVM_less b a)
   \<and> RegLLVM_eq a b = (\<not> RegLLVM_less a b \<and> \<not> RegLLVM_less b a)"
  by (auto simp: RegLLVM_eq_def RegLLVM_neq_def RegLLVM_less_def RegLLVM.expand)

theorem RegLLVM_order_by_id_witness:
  "RegLLVM_less (RegLLVM 3) (RegLLVM 5) \<and> RegLLVM_less (RegLLVM 5) (RegLLVM 9)
   \<and> RegLLVM_less (RegLLVM 3) (RegLLVM 9) \<and> \<not> RegLLVM_less (RegLLVM 5) (RegLLVM 3)
   \<and> RegLLVM_neq (RegLLVM 3) (RegLLVM 5)"
  using RegLLVM_order_by_id [of "RegLLVM 3" "RegLLVM 5" "RegLLVM 9"]
  by (simp add: RegLLVM_less_def)

text \<open>
  C10. For registers with valid ids, \<^verbatim>\<open>r == s\<close> compares the raw ids of the table
  entries \<^verbatim>\<open>GPR_ID[r.id]\<close> and \<^verbatim>\<open>GPR_ID[s.id]\<close>, while \<^verbatim>\<open>r < s\<close> compares the slot ids
  themselves. Equality agrees with identity of the slot ids on all valid registers
  exactly when the table is injective on the valid ids.
\<close>

theorem Reg_eq_and_less_use_different_keys:
  "(Reg_valid GPR_ID r \<and> Reg_valid GPR_ID s \<longrightarrow>
      Reg_eq_Reg GPR_ID r s =
        Some (RegLLVM_id (GPR_ID ! unat (Reg_id r)) = RegLLVM_id (GPR_ID ! unat (Reg_id s))))
   \<and> Reg_less r s = (Reg_id r < Reg_id s)
   \<and> (\<not> Reg_less r s \<and> \<not> Reg_less s r) = (Reg_id r = Reg_id s)
   \<and> ((\<forall>a b. Reg_valid GPR_ID a \<and> Reg_valid GPR_ID b \<longrightarrow>
           Reg_eq_Reg GPR_ID a b = Some (Reg_id a = Reg_id b))
        = inj_on (\<lambda>i :: unsigned_int. RegLLVM_id (GPR_ID ! unat i)) {i. unat i < length GPR_ID})"
proof (intro conjI impI)
  assume "Reg_valid GPR_ID r \<and> Reg_valid GPR_ID s"
  then show "Reg_eq_Reg GPR_ID r s =
      Some (RegLLVM_id (GPR_ID ! unat (Reg_id r)) = RegLLVM_id (GPR_ID ! unat (Reg_id s)))"
    by (simp add: Reg_eq_Reg_valid)
next
  show "Reg_less r s = (Reg_id r < Reg_id s)"
    by (simp add: Reg_less_def)
next
  show "(\<not> Reg_less r s \<and> \<not> Reg_less s r) = (Reg_id r = Reg_id s)"
    by (rule Reg_less_equiv)
next
  let ?f = "\<lambda>i :: unsigned_int. RegLLVM_id (GPR_ID ! unat i)"
  let ?V = "{i. unat i < length GPR_ID}"
  show "(\<forall>a b. Reg_valid GPR_ID a \<and> Reg_valid GPR_ID b \<longrightarrow>
           Reg_eq_Reg GPR_ID a b = Some (Reg_id a = Reg_id b)) = inj_on ?f ?V"
  proof
    assume agree: "\<forall>a b. Reg_valid GPR_ID a \<and> Reg_valid GPR_ID b \<longrightarrow>
           Reg_eq_Reg GPR_ID a b = Some (Reg_id a = Reg_id b)"
    show "inj_on ?f ?V"
    proof (rule inj_onI)
      fix i j
      assume i: "i \<in> ?V" and j: "j \<in> ?V" and eq: "?f i = ?f j"
      have vi: "Reg_valid GPR_ID (Reg i)" and vj: "Reg_valid GPR_ID (Reg j)"
        using i j by (simp_all add: Reg_valid_def)
      from agree vi vj have "Reg_eq_Reg GPR_ID (Reg i) (Reg j) = Some (i = j)"
        by fastforce
      moreover have "Reg_eq_Reg GPR_ID (Reg i) (Reg j) = Some (?f i = ?f j)"
        using vi vj by (simp add: Reg_eq_Reg_valid)
      ultimately show "i = j" using eq by simp
    qed
  next
    assume inj: "inj_on ?f ?V"
    show "\<forall>a b. Reg_valid GPR_ID a \<and> Reg_valid GPR_ID b \<longrightarrow>
           Reg_eq_Reg GPR_ID a b = Some (Reg_id a = Reg_id b)"
    proof (intro allI impI)
      fix a b
      assume v: "Reg_valid GPR_ID a \<and> Reg_valid GPR_ID b"
      then have "Reg_id a \<in> ?V" "Reg_id b \<in> ?V"
        by (simp_all add: Reg_valid_def)
      with inj have "(?f (Reg_id a) = ?f (Reg_id b)) = (Reg_id a = Reg_id b)"
        by (rule inj_on_eq_iff)
      then show "Reg_eq_Reg GPR_ID a b = Some (Reg_id a = Reg_id b)"
        using v by (simp add: Reg_eq_Reg_valid)
    qed
  qed
qed

theorem Reg_eq_and_less_use_different_keys_witness:
  "Reg_valid [RegLLVM 7, RegLLVM 7] (Reg 0) \<and> Reg_valid [RegLLVM 7, RegLLVM 7] (Reg 1)
   \<and> Reg_eq_Reg [RegLLVM 7, RegLLVM 7] (Reg 0) (Reg 1) = Some True
   \<and> Reg_less (Reg 0) (Reg 1)
   \<and> \<not> inj_on (\<lambda>i. RegLLVM_id ([RegLLVM 7, RegLLVM 7] ! unat i))
         {i :: 32 word. unat i < length [RegLLVM 7, RegLLVM 7]}"
proof -
  let ?G = "[RegLLVM 7, RegLLVM 7]"
  note th = Reg_eq_and_less_use_different_keys [of ?G "Reg 0" "Reg 1"]
  have v: "Reg_valid ?G (Reg 0) \<and> Reg_valid ?G (Reg 1)"
    by (simp add: Reg_valid_def)
  have e: "Reg_eq_Reg ?G (Reg 0) (Reg 1) = Some True"
    using th [THEN conjunct1] v by simp
  have l: "Reg_less (Reg 0) (Reg 1)"
    using th [THEN conjunct2, THEN conjunct1] by simp
  have "\<not> (\<forall>a b. Reg_valid ?G a \<and> Reg_valid ?G b \<longrightarrow>
           Reg_eq_Reg ?G a b = Some (Reg_id a = Reg_id b))"
  proof
    assume "\<forall>a b. Reg_valid ?G a \<and> Reg_valid ?G b \<longrightarrow>
           Reg_eq_Reg ?G a b = Some (Reg_id a = Reg_id b)"
    with v have "Reg_eq_Reg ?G (Reg 0) (Reg 1) = Some (Reg_id (Reg 0) = Reg_id (Reg 1))"
      by blast
    with e show False by simp
  qed
  with th [THEN conjunct2, THEN conjunct2, THEN conjunct2] have "\<not> inj_on (\<lambda>i. RegLLVM_id (?G ! unat i)) {i :: 32 word. unat i < length ?G}"
    by simp
  with v e l show ?thesis by blast
qed

section \<open>Shadows and the symbolic placeholders\<close>

text \<open>
  C5. Let the saved GPR block lie inside the address space of the target and below
  \<open>2 ^ 63\<close>. Then for every register with a valid id the value of \<^verbatim>\<open>Offset(r)\<close>, read as
  a signed 64-bit integer, is \<^verbatim>\<open>r.offset()\<close>, that is the offset of the block plus the id
  times \<^verbatim>\<open>sizeof(rword)\<close>. With a word of 8 bytes and the block at offset 64,
  \<^verbatim>\<open>Offset(Reg(0))\<close> is 64, so it addresses the base of the context plus 64.
\<close>

theorem Offset_of_Reg_is_Reg_offset:
  fixes base :: "'a::len word"
  assumes fits: "unat base + sizeof_rword TYPE('a) * length GPR_ID \<le> 2 ^ LENGTH('a)"
    and repr: "unat base + sizeof_rword TYPE('a) * length GPR_ID \<le> 2 ^ 63"
    and valid: "Reg_valid GPR_ID r"
  shows "Offset_to_int64_t (Offset_of_Reg base r) = ucast (Reg_offset base r)
       \<and> sint (Offset_to_int64_t (Offset_of_Reg base r)) = uint (Reg_offset base r)
       \<and> sint (Offset_to_int64_t (Offset_of_Reg base r)) =
           int (unat base + sizeof_rword TYPE('a) * unat (Reg_id r))
       \<and> sizeof_rword TYPE(64) = 8
       \<and> base_of_context + Offset_to_int64_t (Offset_of_Reg (64 :: 64 word) (Reg 0)) =
           base_of_context + 64"
proof -
  let ?n = "unat base + sizeof_rword TYPE('a) * unat (Reg_id r)"
  have u: "unat (Reg_offset base r) = ?n"
    by (rule Reg_offset_unat [OF Reg_valid_slot_fits [OF fits valid]])
  have "?n < 2 ^ 63"
  proof (cases "sizeof_rword TYPE('a) = 0")
    case True
    then have "LENGTH('a) < 8"
      by (simp add: sizeof_rword_def)
    then have "LENGTH('a) \<le> 63" by simp
    then have "(2::nat) ^ LENGTH('a) \<le> 2 ^ 63"
      by (intro power_increasing) simp_all
    with unsigned_less [of base] have "unat base < 2 ^ 63"
      by (rule less_le_trans)
    with True show ?thesis by (simp only: mult_0 add_0_right)
  next
    case False
    have "unat (Reg_id r) < length GPR_ID"
      using valid by (simp add: Reg_valid_def)
    then have "sizeof_rword TYPE('a) * unat (Reg_id r) < sizeof_rword TYPE('a) * length GPR_ID"
      using False by simp
    then have "?n < unat base + sizeof_rword TYPE('a) * length GPR_ID"
      by (rule add_strict_left_mono)
    then show ?thesis using repr by (rule less_le_trans)
  qed
  then have "int ?n < int (2 ^ 63)"
    by (simp only: of_nat_less_iff)
  then have "int ?n < 2 ^ 63"
    by (simp only: of_nat_power of_nat_numeral)
  then have lt: "uint (Reg_offset base r) < 2 ^ 63"
    by (simp only: u [symmetric] of_nat_unat)
  have s: "sint (Offset_to_int64_t (Offset_of_Reg base r)) = uint (Reg_offset base r)"
    using sint_ucast_int64_t [OF lt] by (simp add: Offset_to_int64_t_def Offset_of_Reg_def)
  have i: "uint (Reg_offset base r) = int ?n"
    by (simp only: u [symmetric] of_nat_unat)
  have sc: "Offset_to_int64_t (Offset_of_Reg (64 :: 64 word) (Reg 0)) = 64"
    by (simp add: Offset_to_int64_t_def Offset_of_Reg_def Reg_offset_def)
  show ?thesis
    using s i sc by (simp add: Offset_to_int64_t_def Offset_of_Reg_def sizeof_rword_def)
qed

theorem Offset_of_Reg_is_Reg_offset_witness:
  "Reg_valid [RegLLVM 10, RegLLVM 11] (Reg 1)
   \<and> unat (64 :: 64 word) + sizeof_rword TYPE(64) * length [RegLLVM 10, RegLLVM 11] \<le> 2 ^ 63
   \<and> sint (Offset_to_int64_t (Offset_of_Reg (64 :: 64 word) (Reg 1))) = 72
   \<and> Offset_to_int64_t (Offset_of_Reg (64 :: 64 word) (Reg 1)) = 72"
proof -
  let ?G = "[RegLLVM 10, RegLLVM 11]"
  have sz: "sizeof_rword TYPE(64) = 8"
    by (simp add: sizeof_rword_def)
  have fits: "unat (64 :: 64 word) + sizeof_rword TYPE(64) * length ?G \<le> 2 ^ LENGTH(64)"
    by (simp add: sz)
  have repr: "unat (64 :: 64 word) + sizeof_rword TYPE(64) * length ?G \<le> 2 ^ 63"
    by (simp add: sz)
  have valid: "Reg_valid ?G (Reg 1)"
    by (simp add: Reg_valid_def)
  note th = Offset_of_Reg_is_Reg_offset [OF fits repr valid]
  have a: "sint (Offset_to_int64_t (Offset_of_Reg (64 :: 64 word) (Reg 1))) = 72"
    using th [THEN conjunct2, THEN conjunct2, THEN conjunct1] by (simp add: sz)
  have b: "Offset_to_int64_t (Offset_of_Reg (64 :: 64 word) (Reg 1)) = 72"
    using th [THEN conjunct1] by (simp add: Reg_offset_def sz)
  show ?thesis
    using valid repr a b by (simp only: simp_thms)
qed

text \<open>
  C6. \<^verbatim>\<open>MEMORY_TAG_BEGIN\<close> is below \<^verbatim>\<open>MEMORY_TAG_END\<close>, so the half-open range of the
  memory-access tags is not empty; \<^verbatim>\<open>Untagged\<close> is \<^verbatim>\<open>0xFFFF\<close> and lies outside the range.
  Every tag is of exactly one kind: a memory-access tag, \<^verbatim>\<open>Untagged\<close>, or free for
  instrumentation; the free tags are those below \<^verbatim>\<open>0xffe0\<close> and those from \<^verbatim>\<open>0xfff0\<close>
  to \<^verbatim>\<open>0xfffe\<close>.
\<close>

theorem ShadowReservedTag_namespaces:
  "ShadowReservedTag_value MEMORY_TAG_BEGIN < ShadowReservedTag_value MEMORY_TAG_END
   \<and> memory_tag (ShadowReservedTag_value MEMORY_TAG_BEGIN)
   \<and> ShadowReservedTag_value Untagged = 0xFFFF
   \<and> \<not> memory_tag (ShadowReservedTag_value Untagged)
   \<and> \<not> memory_tag (ShadowReservedTag_value MEMORY_TAG_END)
   \<and> free_for_instrumentation t =
       (t < 0xffe0 \<or> (0xfff0 \<le> t \<and> t < 0xffff))
   \<and> (memory_tag t \<or> t = ShadowReservedTag_value Untagged \<or> free_for_instrumentation t)
   \<and> \<not> (memory_tag t \<and> free_for_instrumentation t)
   \<and> \<not> (t = ShadowReservedTag_value Untagged \<and> free_for_instrumentation t)"
proof -
  have bound: "unat t < 65536"
    using unsigned_less [of t] by simp
  show ?thesis
    using bound
    by (simp add: memory_tag_def free_for_instrumentation_def word_le_nat_alt
        word_less_nat_alt word_unat_eq_iff) linarith
qed

text \<open>
  C7. When the machine word has at least 16 bits, \<^verbatim>\<open>getTag()\<close> of a shadow built with
  tag \<^verbatim>\<open>t\<close> is \<^verbatim>\<open>t\<close> widened to the machine word: its value is the value of \<^verbatim>\<open>t\<close>, below
  \<open>2 ^ 16\<close>.
\<close>

theorem Shadow_getTag_is_tag:
  assumes "16 \<le> LENGTH('a::len)"
  shows "(Shadow_getTag (Shadow t) :: 'a word) = ucast t
       \<and> unat (Shadow_getTag (Shadow t) :: 'a word) = unat t
       \<and> unat (Shadow_getTag (Shadow t) :: 'a word) < 2 ^ 16"
proof -
  have lt: "unat t < 2 ^ 16"
    using unsigned_less [of t] by simp
  also have "(2::nat) ^ 16 \<le> 2 ^ LENGTH('a)"
    using assms by (rule power_increasing) simp
  finally have "unat (ucast t :: 'a word) = unat t"
    by (simp add: unsigned_ucast_eq take_bit_nat_eq_self)
  then show ?thesis
    using lt by (simp add: Shadow_getTag_def)
qed

theorem Shadow_getTag_is_tag_witness:
  "16 \<le> LENGTH(32)
   \<and> (Shadow_getTag (Shadow 0xffe3) :: 32 word) = 0xffe3
   \<and> unat (Shadow_getTag (Shadow 0xffe3) :: 32 word) = 65507"
  using Shadow_getTag_is_tag [where 'a = 32, of "0xffe3"]
  by simp

text \<open>
  C8. Each placeholder converts back to the raw value it was built from:
  \<^verbatim>\<open>Constant(v)\<close> to \<^verbatim>\<open>v\<close>, \<^verbatim>\<open>Temp(id)\<close> to \<^verbatim>\<open>id\<close> and \<^verbatim>\<open>Operand(idx)\<close> to \<^verbatim>\<open>idx\<close>.
\<close>

theorem placeholders_round_trip:
  "Constant_to_rword (Constant v) = v
   \<and> Temp_to_unsigned (Temp i) = i
   \<and> Operand_to_unsigned (Operand idx) = idx"
  by (simp add: Constant_to_rword_def Temp_to_unsigned_def Operand_to_unsigned_def)

end
